theory Spec2Isabelle
  imports Main "HOL-Library.Sublist" "HOL-Library.Word"
begin

section \<open>The varlink image handlers of pkg/varlinkapi/images.go\<close>

text \<open>
  Each handler of \<^verbatim>\<open>images.go\<close> is a function of its request and of the
  collaborators it calls: the image runtime, the registries, and the Go library.
  A collaborator is a parameter of the model (a field of \<open>golib\<close> or \<open>runtime\<close>),
  so every theorem holds for whatever the collaborator returns.  Go's \<open>int\<close> and
  \<open>int64\<close> are 64-bit words (the conversions between them are the identity on a
  64-bit platform), \<open>string\<close> is a list of bytes, \<open>strings.HasPrefix s p\<close> is
  \<open>prefix p s\<close>.
\<close>

subsection \<open>Errors\<close>

text \<open>
  A Go \<open>error\<close> value; \<open>nil\<close> is \<open>None\<close> of \<open>error option\<close>.  Two sentinels are
  compared by identity in the source: \<open>image.ErrNoSuchImage\<close> and \<open>io.EOF\<close>.
  \<open>Wrapf err msg\<close> is \<open>errors.Wrapf(err, msg)\<close> of github.com/pkg/errors, whose text is
  the message, a colon, and the text of the wrapped error, and whose \<open>Cause\<close> is the
  innermost error.  The text of \<open>ErrNoSuchImage\<close> is declared in libpod/image.
\<close>

datatype error =
    ErrNoSuchImage
  | EOF
  | Errorf string
  | Wrapf error string

fun Cause :: "error \<Rightarrow> error" where
  "Cause (Wrapf err msg) = Cause err"
| "Cause err = err"

fun Error :: "error \<Rightarrow> string" where
  "Error ErrNoSuchImage = ''no such image''"
| "Error EOF = ''EOF''"
| "Error (Errorf s) = s"
| "Error (Wrapf err msg) = msg @ '': '' @ Error err"

subsection \<open>Replies\<close>

record BuildResponse =
  br_Logs :: "string list"
  br_Id :: string

record ImageHistory =
  ih_Id :: string
  ih_Created :: string
  ih_CreatedBy :: string
  ih_Tags :: "string list"
  ih_Size :: "64 word"
  ih_Comment :: string

record ImageSearch =
  is_Description :: string
  is_Is_official :: bool
  is_Is_automated :: bool
  is_Name :: string
  is_Star_count :: "64 word"

text \<open>The replies of \<open>iopodman.VarlinkCall\<close> that the modelled handlers send.\<close>

datatype reply =
    ReplyErrorOccurred string
  | ReplyImageNotFound string
  | ReplyBuildImage BuildResponse
  | ReplyHistoryImage "ImageHistory list"
  | ReplyPushImage string
  | ReplySearchImage "ImageSearch list"
  | ReplyPullImage string
  | ReplyImageExists "64 word"
  | ReplyImagesPrune "string list"

text \<open>
  How a handler that answers at most once ends: it returns what a \<open>call.Reply...\<close>
  returned after sending the reply (\<open>Replied\<close>; the send itself is taken to succeed),
  it returns an error without replying (\<open>Returned\<close>), or it panics on an index out
  of range (\<open>Panicked\<close>).
\<close>

datatype outcome =
    Replied reply
  | Returned error
  | Panicked

subsection \<open>Collaborators\<close>

text \<open>
  \<open>image.History\<close> of libpod/image, which is declared outside this file;
  \<open>Created\<close> is taken to hold a time, here in seconds.
\<close>

record History =
  h_ID :: string
  h_Created :: int
  h_CreatedBy :: string
  h_Size :: "64 word"
  h_Comment :: string

text \<open>
  \<open>*image.Image\<close> as the handlers read it: \<open>ID()\<close>, \<open>Names()\<close>, and what
  \<open>History(ctx)\<close> returns.
\<close>

record Image =
  ID :: string
  Names :: "string list"
  img_History :: "error + History list"

datatype OptionalBool = OptionalBoolUndefined | OptionalBoolTrue | OptionalBoolFalse


text \<open>\<open>*types.DockerAuthConfig\<close>, as \<open>util.ParseRegistryCreds\<close> returns it.\<close>

record DockerAuthConfig =
  Username :: string
  Password :: string

record DockerRegistryOptions =
  DockerRegistryCreds :: "DockerAuthConfig option"
  DockerCertPath :: string
  DockerInsecureSkipTLSVerify :: OptionalBool

record SigningOptions =
  RemoveSignatures :: bool
  SignBy :: string

record SearchResult =
  sr_Name :: string
  sr_Description :: string
  sr_StarCount :: "64 word"
  sr_IsOfficial :: bool
  sr_IsAutomated :: bool

text \<open>
  The Go library functions the handlers call: \<open>filepath.Abs\<close>, \<open>filepath.Dir\<close>,
  \<open>filepath.Rel\<close>, \<open>units.RAMInBytes\<close>, the \<open>%q\<close> verb of \<open>fmt.Sprintf\<close> and
  \<open>Time.String\<close>.
\<close>

record golib =
  filepath_Abs :: "string \<Rightarrow> error + string"
  filepath_Dir :: "string \<Rightarrow> string"
  filepath_Rel :: "string \<Rightarrow> string \<Rightarrow> error + string"
  RAMInBytes :: "string \<Rightarrow> error + 64 word"
  Quote :: "string \<Rightarrow> string"
  Time_String :: "int \<Rightarrow> string"

text \<open>
  The image runtime and the registries.  \<open>'w\<close> is the state of the world that a
  sequence of removals or searches changes; \<open>Remove\<close> and \<open>SearchRegistry\<close> take
  it and return the new one.  \<open>archive_Transport_Name\<close> is
  \<open>dockerarchive.Transport.Name()\<close>, the name of the transport of the package
  containers/image/docker/archive.
\<close>

record 'w runtime =
  NewFromLocal :: "string \<Rightarrow> error + Image"
  ParseRegistryCreds :: "string \<Rightarrow> error + DockerAuthConfig"
  PushImageToHeuristicDestination ::
    "Image \<Rightarrow> string \<Rightarrow> string \<Rightarrow> string \<Rightarrow> bool \<Rightarrow> SigningOptions
      \<Rightarrow> DockerRegistryOptions \<Rightarrow> error option"
  archive_Transport_Name :: string
  ParseImageName :: "string \<Rightarrow> error + string"
  LoadFromArchiveReference :: "string \<Rightarrow> string \<Rightarrow> error + Image list"
  New :: "string \<Rightarrow> string \<Rightarrow> DockerRegistryOptions \<Rightarrow> SigningOptions \<Rightarrow> error + Image"
  GetRegistries :: "error + string list"
  SearchRegistry :: "string \<Rightarrow> string \<Rightarrow> 64 word \<Rightarrow> 'w \<Rightarrow> (error + SearchResult list) \<times> 'w"
  GetPruneImages :: "'w \<Rightarrow> error + Image list"
  Remove :: "Image \<Rightarrow> bool \<Rightarrow> 'w \<Rightarrow> error option \<times> 'w"

text \<open>
  The calls a handler makes that act outside it, in the order it makes them, with
  the arguments it passes.
\<close>

datatype effect =
    Push Image string string string bool SigningOptions DockerRegistryOptions
  | Load_archive string string
  | Pull_registry string string DockerRegistryOptions SigningOptions
  | Removal Image bool

subsection \<open>ImageExists\<close>

definition ImageExists :: "'w runtime \<Rightarrow> string \<Rightarrow> outcome" where
  "ImageExists rt name =
     (case NewFromLocal rt name of
        Inl err \<Rightarrow>
          if Cause err = ErrNoSuchImage then Replied (ReplyImageExists 1)
          else Replied (ReplyErrorOccurred (Error err))
      | Inr newImage \<Rightarrow> Replied (ReplyImageExists 0))"

subsection \<open>HistoryImage\<close>

definition imageHistory :: "golib \<Rightarrow> Image \<Rightarrow> History \<Rightarrow> ImageHistory" where
  "imageHistory lib newImage hist =
     \<lparr>ih_Id = h_ID hist,
      ih_Created = Time_String lib (h_Created hist),
      ih_CreatedBy = h_CreatedBy hist,
      ih_Tags = Names newImage,
      ih_Size = h_Size hist,
      ih_Comment = h_Comment hist\<rparr>"

text \<open>The loop appends one entry per element of \<open>history\<close>, in its order.\<close>

fun histories_loop :: "golib \<Rightarrow> Image \<Rightarrow> History list \<Rightarrow> ImageHistory list \<Rightarrow> ImageHistory list" where
  "histories_loop lib newImage [] histories = histories"
| "histories_loop lib newImage (hist # history) histories =
     histories_loop lib newImage history (histories @ [imageHistory lib newImage hist])"

definition HistoryImage :: "golib \<Rightarrow> 'w runtime \<Rightarrow> string \<Rightarrow> outcome" where
  "HistoryImage lib rt name =
     (case NewFromLocal rt name of
        Inl err \<Rightarrow> Replied (ReplyImageNotFound name)
      | Inr newImage \<Rightarrow>
          (case img_History newImage of
             Inl err \<Rightarrow> Replied (ReplyErrorOccurred (Error err))
           | Inr history \<Rightarrow> Replied (ReplyHistoryImage (histories_loop lib newImage history []))))"

subsection \<open>PushImage\<close>

text \<open>
  The manifest media types the source names by constants of other packages:
  \<open>v1.MediaTypeImageManifest\<close> (also \<open>buildah.OCIv1ImageManifest\<close>),
  \<open>manifest.DockerV2Schema1SignedMediaType\<close> and
  \<open>manifest.DockerV2Schema2MediaType\<close> (also \<open>buildah.Dockerv2ImageManifest\<close>).
\<close>

definition MediaTypeImageManifest :: string where
  "MediaTypeImageManifest = ''application/vnd.oci.image.manifest.v1+json''"

definition DockerV2Schema1SignedMediaType :: string where
  "DockerV2Schema1SignedMediaType = ''application/vnd.docker.distribution.manifest.v1+prettyjws''"

definition DockerV2Schema2MediaType :: string where
  "DockerV2Schema2MediaType = ''application/vnd.docker.distribution.manifest.v2+json''"

text \<open>The \<open>switch format\<close> of PushImage; \<open>None\<close> is its \<open>default\<close> branch.\<close>

definition push_manifestType :: "string \<Rightarrow> string option" where
  "push_manifestType format =
     (if format = '''' then Some ''''
      else if format = ''oci'' then Some MediaTypeImageManifest
      else if format = ''v2s1'' then Some DockerV2Schema1SignedMediaType
      else if format = ''v2s2'' \<or> format = ''docker'' then Some DockerV2Schema2MediaType
      else None)"

text \<open>A word between two apostrophes, as the messages of the source write it.\<close>

definition single_quoted :: "string \<Rightarrow> string" where
  "single_quoted s = CHR 0x27 # s @ [CHR 0x27]"

text \<open>\<open>registryCreds\<close>: parsed when \<open>creds\<close> is not empty, \<open>nil\<close> otherwise.\<close>

definition registryCreds_of :: "'w runtime \<Rightarrow> string \<Rightarrow> error + DockerAuthConfig option" where
  "registryCreds_of rt creds =
     (if creds \<noteq> '''' then
        (case ParseRegistryCreds rt creds of Inl err \<Rightarrow> Inl err | Inr c \<Rightarrow> Inr (Some c))
      else Inr None)"

definition PushImage ::
  "golib \<Rightarrow> 'w runtime \<Rightarrow> string \<Rightarrow> string \<Rightarrow> bool \<Rightarrow> string \<Rightarrow> string \<Rightarrow> string \<Rightarrow> bool
    \<Rightarrow> string \<Rightarrow> bool \<Rightarrow> string \<Rightarrow> effect list \<times> outcome" where
  "PushImage lib rt name tag tlsVerify signaturePolicy creds certDir compress format
       removeSignatures signBy =
     (case NewFromLocal rt name of
        Inl err \<Rightarrow> ([], Replied (ReplyImageNotFound (Error err)))
      | Inr newImage \<Rightarrow>
          let destname = (if tag \<noteq> '''' then tag else name) in
          (case registryCreds_of rt creds of
             Inl err \<Rightarrow> ([], Returned err)
           | Inr registryCreds \<Rightarrow>
               let dockerRegistryOptions =
                     \<lparr>DockerRegistryCreds = registryCreds,
                      DockerCertPath = certDir,
                      DockerInsecureSkipTLSVerify =
                        (if \<not> tlsVerify then OptionalBoolTrue else OptionalBoolUndefined)\<rparr> in
               (case push_manifestType format of
                  None \<Rightarrow>
                    ([], Replied (ReplyErrorOccurred
                      (''unknown format '' @ Quote lib format @
                       ''. Choose on of the supported formats: '' @ single_quoted ''oci'' @
                       '', '' @ single_quoted ''v2s1'' @ '', or '' @ single_quoted ''v2s2'')))
                | Some manifestType \<Rightarrow>
                    let so = \<lparr>RemoveSignatures = removeSignatures, SignBy = signBy\<rparr> in
                    (case PushImageToHeuristicDestination rt newImage destname manifestType
                            signaturePolicy compress so dockerRegistryOptions of
                       Some err \<Rightarrow>
                         ([Push newImage destname manifestType signaturePolicy compress so
                             dockerRegistryOptions],
                          Replied (ReplyErrorOccurred (Error err)))
                     | None \<Rightarrow>
                         ([Push newImage destname manifestType signaturePolicy compress so
                             dockerRegistryOptions],
                          Replied (ReplyPushImage (ID newImage)))))))"

subsection \<open>PullImage\<close>


subsection \<open>SearchImage\<close>

definition ImageSearch_of :: "SearchResult \<Rightarrow> ImageSearch" where
  "ImageSearch_of result =
     \<lparr>is_Description = sr_Description result,
      is_Is_official = sr_IsOfficial result,
      is_Is_automated = sr_IsAutomated result,
      is_Name = sr_Name result,
      is_Star_count = sr_StarCount result\<rparr>"

text \<open>The inner loop over the \<open>results\<close> of one registry.\<close>

fun results_loop :: "SearchResult list \<Rightarrow> ImageSearch list \<Rightarrow> ImageSearch list" where
  "results_loop [] imageResults = imageResults"
| "results_loop (result # results) imageResults =
     results_loop results (imageResults @ [ImageSearch_of result])"

text \<open>
  The loop over the registries still to query; \<open>registries\<close> is the whole list, whose
  length decides whether a failure is skipped.  The system context \<open>sc\<close> is the same
  constant in every query and is left out.
\<close>

fun search_loop ::
  "'w runtime \<Rightarrow> string list \<Rightarrow> string \<Rightarrow> 64 word \<Rightarrow> string list \<Rightarrow> ImageSearch list \<Rightarrow> 'w
    \<Rightarrow> outcome \<times> 'w" where
  "search_loop rt registries name limit [] imageResults w =
     (Replied (ReplySearchImage imageResults), w)"
| "search_loop rt registries name limit (reg # rest) imageResults w =
     (case SearchRegistry rt reg name limit w of
        (Inl err, w') \<Rightarrow>
          if length registries > 1 then search_loop rt registries name limit rest imageResults w'
          else (Replied (ReplyErrorOccurred (Error err)), w')
      | (Inr results, w') \<Rightarrow>
          search_loop rt registries name limit rest (results_loop results imageResults) w')"

definition SearchImage :: "golib \<Rightarrow> 'w runtime \<Rightarrow> string \<Rightarrow> 64 word \<Rightarrow> 'w \<Rightarrow> outcome \<times> 'w" where
  "SearchImage lib rt name limit w =
     (case GetRegistries rt of
        Inl err \<Rightarrow>
          (Replied (ReplyErrorOccurred
             (''unable to get system registries: '' @ Quote lib (Error err))), w)
      | Inr registries \<Rightarrow> search_loop rt registries name limit registries [] w)"

text \<open>
  What the spec calls querying each configured registry in turn: the answer of every
  registry, in the order of the list, each query made in the world the one before
  left.
\<close>

fun query_each ::
  "'w runtime \<Rightarrow> string \<Rightarrow> 64 word \<Rightarrow> string list \<Rightarrow> 'w \<Rightarrow> (error + SearchResult list) list" where
  "query_each rt name limit [] w = []"
| "query_each rt name limit (reg # rest) w =
     (case SearchRegistry rt reg name limit w of
        (answer, w') \<Rightarrow> answer # query_each rt name limit rest w')"

text \<open>The results of the registries that answered, concatenated in that order.\<close>

definition successful_results :: "(error + SearchResult list) list \<Rightarrow> ImageSearch list" where
  "successful_results answers =
     concat (map (\<lambda>answer. case answer of Inl err \<Rightarrow> [] | Inr results \<Rightarrow> map ImageSearch_of results)
       answers)"

subsection \<open>ImagesPrune\<close>

fun prune_loop ::
  "'w runtime \<Rightarrow> Image list \<Rightarrow> string list \<Rightarrow> 'w \<Rightarrow> (effect list \<times> outcome) \<times> 'w" where
  "prune_loop rt [] pruned w = (([], Replied (ReplyImagesPrune pruned)), w)"
| "prune_loop rt (i # rest) pruned w =
     (case Remove rt i True w of
        (Some err, w') \<Rightarrow> (([Removal i True], Replied (ReplyErrorOccurred (Error err))), w')
      | (None, w') \<Rightarrow>
          (case prune_loop rt rest (pruned @ [ID i]) w' of
             ((effects, out), w'') \<Rightarrow> ((Removal i True # effects, out), w'')))"

definition ImagesPrune :: "'w runtime \<Rightarrow> 'w \<Rightarrow> (effect list \<times> outcome) \<times> 'w" where
  "ImagesPrune rt w =
     (case GetPruneImages rt w of
        Inl err \<Rightarrow> (([], Returned err), w)
      | Inr pruneImages \<Rightarrow> prune_loop rt pruneImages [] w)"

text \<open>
  Removing every member of the prune set with \<open>force\<close>, one after the other: what
  each removal returns, the world passing from one to the next.
\<close>

fun remove_each :: "'w runtime \<Rightarrow> Image list \<Rightarrow> 'w \<Rightarrow> error option list" where
  "remove_each rt [] w = []"
| "remove_each rt (i # rest) w =
     (case Remove rt i True w of (r, w') \<Rightarrow> r # remove_each rt rest w')"

subsection \<open>BuildImage\<close>

text \<open>The fields of \<open>iopodman.BuildInfo\<close> that BuildImage reads.\<close>

record BuildInfo =
  Dockerfile :: "string list"
  Tags :: "string list"
  Add_hosts :: "string list"
  Cgroup_parent :: string
  Cpu_period :: "64 word"
  Cpu_quota :: "64 word"
  Cpuset_cpus :: string
  Cpuset_mems :: string
  Memory :: string
  Memory_swap :: string
  Shm_size :: string
  Ulimit :: "string list"
  Volume :: "string list"
  Squash :: bool
  Pull :: bool
  Pull_always :: bool
  Label :: "string list"
  Annotations :: "string list"
  Build_args :: "(string \<times> string) list"
  Image_format :: string

record CommonBuildOptions =
  AddHost :: "string list"
  CgroupParent :: string
  CPUPeriod :: "64 word"
  CPUQuota :: "64 word"
  CPUSetCPUs :: string
  CPUSetMems :: string
  cbo_Memory :: "64 word"
  MemorySwap :: "64 word"
  ShmSize :: string
  cbo_Ulimit :: "string list"
  Volumes :: "string list"

text \<open>
  \<open>buildah.NamespaceOption\<close>, with the two fields the source sets, and
  \<open>specs.NetworkNamespace\<close> of the OCI runtime specification.
\<close>

record NamespaceOption =
  ns_Name :: string
  ns_Host :: bool

definition NetworkNamespace :: string where
  "NetworkNamespace = ''network''"

datatype PullPolicy = PullNever | PullIfMissing | PullAlways

datatype Compression = Uncompressed | Bzip2 | Gzip | Xz

text \<open>
  \<open>imagebuildah.BuildOptions\<close> as BuildImage fills it.  Its \<open>ReportWriter\<close> is the
  buffer \<open>output\<close>, which the model reads through the observations below; its
  \<open>SystemContext\<close> is the empty \<open>types.SystemContext{}\<close>.
\<close>

record BuildOptions =
  ContextDirectory :: string
  bo_PullPolicy :: PullPolicy
  bo_Compression :: Compression
  Quiet :: bool
  Args :: "(string \<times> string) list"
  AdditionalTags :: "string list"
  OutputFormat :: string
  CommonBuildOpts :: CommonBuildOptions
  bo_Squash :: bool
  Labels :: "string list"
  bo_Annotations :: "string list"
  NamespaceOptions :: "NamespaceOption list"

text \<open>\<open>iopodman.VarlinkCall\<close>: what \<open>WantsMore()\<close> returns and the flag \<open>Continues\<close>.\<close>

record VarlinkCall =
  WantsMore :: bool
  Continues :: bool

text \<open>A reply as it leaves, with the value \<open>call.Continues\<close> has when it is sent.\<close>

type_synonym frame = "bool \<times> reply"

text \<open>
  The loop over \<open>dockerfiles\<close> (lines 122 to 139): remote files are skipped, the first
  local one fixes \<open>contextDir\<close>, is replaced by its path relative to it, and ends the
  loop.  \<open>dockerfiles\<close> shares its array with \<open>config.Dockerfile\<close>, so the changed
  list is the one passed to \<open>build\<close>.  When \<open>filepath.Rel\<close> fails, the element
  already holds what \<open>Rel\<close> returned with its error, the empty string.
\<close>

definition remote_file :: "string \<Rightarrow> bool" where
  "remote_file d \<longleftrightarrow>
     prefix ''http://'' d \<or> prefix ''https://'' d \<or> prefix ''git://'' d \<or> prefix ''github.com/'' d"

fun dockerfiles_loop :: "golib \<Rightarrow> string list \<Rightarrow> error + (string \<times> string list)" where
  "dockerfiles_loop lib [] = Inr ('''', [])"
| "dockerfiles_loop lib (d # rest) =
     (if remote_file d then
        (case dockerfiles_loop lib rest of
           Inl err \<Rightarrow> Inl err
         | Inr (contextDir, rest') \<Rightarrow> Inr (contextDir, d # rest'))
      else
        (case filepath_Abs lib d of
           Inl err \<Rightarrow> Inl (Wrapf err (''error determining path to file '' @ Quote lib d))
         | Inr absFile \<Rightarrow>
             let contextDir = filepath_Dir lib absFile in
             (case filepath_Rel lib contextDir absFile of
                Inl err \<Rightarrow> Inl (Wrapf err (''error determining path to file '' @ Quote lib ''''))
              | Inr rel \<Rightarrow> Inr (contextDir, rel # rest))))"

text \<open>
  Lines 149 to 160: the manifest type, \<open>Inl\<close> with the unrecognized name when it
  begins with neither \<open>oci\<close> nor \<open>docker\<close>.
\<close>

definition build_manifestType :: "BuildInfo \<Rightarrow> string + string" where
  "build_manifestType config =
     (let manifestType = (if Image_format config \<noteq> '''' then Image_format config else ''oci'') in
      if prefix ''oci'' manifestType then Inr MediaTypeImageManifest
      else if prefix ''docker'' manifestType then Inr DockerV2Schema2MediaType
      else Inl manifestType)"

text \<open>Lines 162 to 174: a limit is parsed when its string is not empty, and is 0 otherwise.\<close>

definition parse_limit :: "golib \<Rightarrow> string \<Rightarrow> error + 64 word" where
  "parse_limit lib s = (if s \<noteq> '''' then RAMInBytes lib s else Inr 0)"

text \<open>How BuildImage leaves before it launches the build.\<close>

datatype early = Early_return error | Early_reply string

text \<open>
  Lines 111 to 217: the options and the Dockerfiles that \<open>build\<close> is called with, or
  the early exit.
\<close>

definition build_options :: "golib \<Rightarrow> BuildInfo \<Rightarrow> early + (BuildOptions \<times> string list)" where
  "build_options lib config =
     (case dockerfiles_loop lib (Dockerfile config) of
        Inl err \<Rightarrow> Inl (Early_return err)
      | Inr (contextDir, dockerfiles) \<Rightarrow>
          let pullPolicy =
                (if Pull_always config then PullAlways
                 else if Pull config then PullIfMissing else PullNever) in
          (case build_manifestType config of
             Inl manifestType \<Rightarrow>
               Inl (Early_reply (''unrecognized image type '' @ Quote lib manifestType))
           | Inr manifestType \<Rightarrow>
               (case parse_limit lib (Memory config) of
                  Inl err \<Rightarrow> Inl (Early_reply (Error err))
                | Inr memoryLimit \<Rightarrow>
                    (case parse_limit lib (Memory_swap config) of
                       Inl err \<Rightarrow> Inl (Early_reply (Error err))
                     | Inr memorySwap \<Rightarrow>
                         let commonOpts =
                               \<lparr>AddHost = Add_hosts config,
                                CgroupParent = Cgroup_parent config,
                                CPUPeriod = Cpu_period config,
                                CPUQuota = Cpu_quota config,
                                CPUSetCPUs = Cpuset_cpus config,
                                CPUSetMems = Cpuset_mems config,
                                cbo_Memory = memoryLimit,
                                MemorySwap = memorySwap,
                                ShmSize = Shm_size config,
                                cbo_Ulimit = Ulimit config,
                                Volumes = Volume config\<rparr>;
                             hostNetwork = \<lparr>ns_Name = NetworkNamespace, ns_Host = True\<rparr>;
                             namespace = [] @ [hostNetwork];
                             options =
                               \<lparr>ContextDirectory = contextDir,
                                bo_PullPolicy = pullPolicy,
                                bo_Compression = Gzip,
                                Quiet = False,
                                Args = Build_args config,
                                AdditionalTags = Tags config,
                                OutputFormat = manifestType,
                                CommonBuildOpts = commonOpts,
                                bo_Squash = Squash config,
                                Labels = Label config,
                                bo_Annotations = Annotations config,
                                NamespaceOptions = namespace\<rparr>
                         in Inr (options, dockerfiles)))))"

text \<open>
  The build runs in a goroutine of its own, writing to \<open>output\<close> and at its end
  sending its error on the channel \<open>c\<close>.  Of that the handler sees, in each
  iteration of its loop, what \<open>output.ReadString\<close> returns (\<open>rd_line\<close>, \<open>rd_err\<close>)
  and, when it gets to the \<open>select\<close>, whether \<open>c\<close> has a value for it (\<open>chan\<close>:
  \<open>None\<close> is the \<open>default\<close> branch).  A run of the handler is driven by the list of
  these observations, one for each iteration, so the theorems hold for every
  interleaving of the two goroutines; when the list ends before the loop does, the
  handler is still polling.
\<close>

record tick =
  rd_line :: string
  rd_err :: "error option"
  chan :: "error option option"

text \<open>
  How the loop of lines 226 to 255 ends: through \<open>done\<close> with the log it holds,
  through one of its \<open>return\<close>s, or not within the observations given.  The last two
  arguments of \<open>poll_loop\<close> are \<open>log\<close> and the frames sent so far.  In the
  \<open>default\<close> branch a caller who does not want more makes the handler sleep and
  poll again; otherwise the log goes out in a reply and starts empty again.
\<close>

datatype loop_exit =
    Loop_done "string list" "frame list"
  | Loop_return "frame list"
  | Loop_polling "string list" "frame list"

fun poll_loop :: "VarlinkCall \<Rightarrow> tick list \<Rightarrow> string list \<Rightarrow> frame list \<Rightarrow> loop_exit" where
  "poll_loop call [] log sent = Loop_polling log sent"
| "poll_loop call (t # ticks) log sent =
     (case rd_err t of
        None \<Rightarrow> poll_loop call ticks (log @ [rd_line t]) sent
      | Some err \<Rightarrow>
          if err = EOF then
            (case chan t of
               Some (Some err) \<Rightarrow>
                 Loop_return (sent @ [(Continues call, ReplyErrorOccurred (Error err))])
             | Some None \<Rightarrow> Loop_done log sent
             | None \<Rightarrow>
                 if \<not> WantsMore call then poll_loop call ticks log sent
                 else
                   poll_loop call ticks []
                     (sent @ [(Continues call, ReplyBuildImage \<lparr>br_Logs = log, br_Id = ''''\<rparr>)]))
          else Loop_return (sent @ [(Continues call, ReplyErrorOccurred (Error err))]))"

text \<open>
  A run of BuildImage: the calls of \<open>build\<close> it made (each launches
  \<open>runtime.Build\<close>, the only thing in the handler that writes log lines or creates
  an image), the frames it sent, and how it ended.
\<close>

datatype ending = Return_nil | Return_err error | Panic | Polling

record build_run =
  launched :: "(BuildOptions \<times> string list) list"
  sent :: "frame list"
  ending :: ending

definition BuildImage ::
  "golib \<Rightarrow> 'w runtime \<Rightarrow> VarlinkCall \<Rightarrow> BuildInfo \<Rightarrow> tick list \<Rightarrow> build_run" where
  "BuildImage lib rt call config ticks =
     (case build_options lib config of
        Inl (Early_return err) \<Rightarrow> \<lparr>launched = [], sent = [], ending = Return_err err\<rparr>
      | Inl (Early_reply reason) \<Rightarrow>
          \<lparr>launched = [], sent = [(Continues call, ReplyErrorOccurred reason)], ending = Return_nil\<rparr>
      | Inr c \<Rightarrow>
          let call1 = (if WantsMore call then call\<lparr>Continues := True\<rparr> else call) in
          (case poll_loop call1 ticks [] [] of
             Loop_return frames \<Rightarrow> \<lparr>launched = [c], sent = frames, ending = Return_nil\<rparr>
           | Loop_polling log frames \<Rightarrow> \<lparr>launched = [c], sent = frames, ending = Polling\<rparr>
           | Loop_done log frames \<Rightarrow>
               let call2 = call1\<lparr>Continues := False\<rparr> in
               (case Tags config of
                  [] \<Rightarrow> \<lparr>launched = [c], sent = frames, ending = Panic\<rparr>
                | tag # others \<Rightarrow>
                    (case NewFromLocal rt tag of
                       Inl err \<Rightarrow>
                         \<lparr>launched = [c],
                          sent = frames @ [(Continues call2, ReplyErrorOccurred (Error err))],
                          ending = Return_nil\<rparr>
                     | Inr newImage \<Rightarrow>
                         \<lparr>launched = [c],
                          sent = frames @
                            [(Continues call2, ReplyBuildImage \<lparr>br_Logs = log, br_Id = ID newImage\<rparr>)],
                          ending = Return_nil\<rparr>))))"

text \<open>
  What the observations say about the build, read off them without the loop: the
  observation that ends the polling is the first one with an error that is not
  \<open>io.EOF\<close>, or with \<open>io.EOF\<close> and a value on \<open>c\<close>; the lines read are those
  \<open>ReadString\<close> returned in full before it.
\<close>

definition final_tick :: "tick \<Rightarrow> bool" where
  "final_tick t \<longleftrightarrow> (case rd_err t of None \<Rightarrow> False | Some err \<Rightarrow> err \<noteq> EOF \<or> chan t \<noteq> None)"

definition build_succeeded :: "tick list \<Rightarrow> bool" where
  "build_succeeded ticks \<longleftrightarrow>
     (case find final_tick ticks of
        None \<Rightarrow> False
      | Some t \<Rightarrow> rd_err t = Some EOF \<and> chan t = Some None)"

definition lines_read :: "tick list \<Rightarrow> string list" where
  "lines_read ticks =
     map rd_line (filter (\<lambda>t. rd_err t = None) (takeWhile (\<lambda>t. \<not> final_tick t) ticks))"


section \<open>Concrete collaborators and requests\<close>

text \<open>
  A store holding one image, \<open>abc123\<close> tagged \<open>myapp:latest\<close>, built in two layers;
  a library that resolves paths under \<open>/work\<close>; two registries of which
  \<open>quay.io\<close> refuses the search; and a world that lists the unused images, where
  the image \<open>busy\<close> cannot be removed and nothing can be removed without force.
  The archive transport has the name the documentation gives it,
  \<open>docker-archive\<close>; the registry is out of reach for a pull, and a push gets
  through to \<open>quay.io/me/myapp:v1\<close> only.
\<close>

definition sample_history :: "History list" where
  "sample_history =
     [\<lparr>h_ID = ''layer1'', h_Created = 100, h_CreatedBy = ''FROM scratch'', h_Size = 5,
       h_Comment = ''''\<rparr>,
      \<lparr>h_ID = ''layer2'', h_Created = 200, h_CreatedBy = ''RUN make'', h_Size = 7,
       h_Comment = ''''\<rparr>]"

definition sample_image :: Image where
  "sample_image =
     \<lparr>ID = ''abc123'', Names = [''myapp:latest''], img_History = Inr sample_history\<rparr>"

definition unused_image :: "string \<Rightarrow> Image" where
  "unused_image i = \<lparr>ID = i, Names = [], img_History = Inr []\<rparr>"

definition sample_lib :: golib where
  "sample_lib =
     \<lparr>filepath_Abs = (\<lambda>p. Inr (''/work/'' @ p)),
      filepath_Dir = (\<lambda>p. ''/work''),
      filepath_Rel = (\<lambda>d p. Inr (drop 6 p)),
      RAMInBytes = (\<lambda>s. if s = ''1k'' then Inr 1024 else Inl (Errorf ''invalid size'')),
      Quote = (\<lambda>s. CHR 0x22 # s @ [CHR 0x22]),
      Time_String = (\<lambda>t. if t = 100 then ''t100'' else ''later'')\<rparr>"

text \<open>The same library in a process whose working directory cannot be read.\<close>

definition lost_lib :: golib where
  "lost_lib = sample_lib\<lparr>filepath_Abs := (\<lambda>p. Inl (Errorf ''getwd: no such file or directory''))\<rparr>"

definition sample_runtime :: "string list runtime" where
  "sample_runtime =
     \<lparr>NewFromLocal = (\<lambda>n. if n = ''myapp:latest'' then Inr sample_image
                          else if n = ''broken'' then Inl (Errorf ''storage corrupted'')
                          else Inl (Wrapf ErrNoSuchImage ''lookup'')),
      ParseRegistryCreds = (\<lambda>s. Inr \<lparr>Username = s, Password = ''''\<rparr>),
      PushImageToHeuristicDestination = (\<lambda>img dest mt pol c so opts.
         if dest = ''quay.io/me/myapp:v1'' then None else Some (Errorf (''no push to '' @ dest))),
      archive_Transport_Name = ''docker-archive'',
      ParseImageName = (\<lambda>n. Inr n),
      LoadFromArchiveReference = (\<lambda>r pol. Inr [sample_image]),
      New = (\<lambda>n pol opts so. Inl (Errorf ''no network'')),
      GetRegistries = Inr [''docker.io'', ''quay.io''],
      SearchRegistry = (\<lambda>reg term limit w.
         (if reg = ''quay.io'' then Inl (Errorf ''unauthorized'')
          else Inr [\<lparr>sr_Name = reg @ ''/'' @ term, sr_Description = '''', sr_StarCount = 3,
                     sr_IsOfficial = True, sr_IsAutomated = False\<rparr>], w)),
      GetPruneImages = (\<lambda>w. Inr (map unused_image w)),
      Remove = (\<lambda>img force w.
         if ID img = ''busy'' \<or> \<not> force then (Some (Errorf ''image is in use''), w)
         else (None, removeAll (ID img) w))\<rparr>"

definition sample_config :: BuildInfo where
  "sample_config =
     \<lparr>Dockerfile = [''Dockerfile''], Tags = [''myapp:latest''], Add_hosts = [],
      Cgroup_parent = '''', Cpu_period = 0, Cpu_quota = 0, Cpuset_cpus = '''',
      Cpuset_mems = '''', Memory = ''1k'', Memory_swap = '''', Shm_size = '''', Ulimit = [],
      Volume = [], Squash = False, Pull = True, Pull_always = False, Label = [],
      Annotations = [], Build_args = [], Image_format = ''''\<rparr>"

text \<open>
  A build that writes two lines and succeeds; the handler finds the buffer empty
  once in between.
\<close>

definition sample_ticks :: "tick list" where
  "sample_ticks =
     [\<lparr>rd_line = ''STEP 1'' @ [CHR 0x0A], rd_err = None, chan = None\<rparr>,
      \<lparr>rd_line = '''', rd_err = Some EOF, chan = None\<rparr>,
      \<lparr>rd_line = ''STEP 2'' @ [CHR 0x0A], rd_err = None, chan = None\<rparr>,
      \<lparr>rd_line = '''', rd_err = Some EOF, chan = Some None\<rparr>]"


definition single_reply_call :: VarlinkCall where
  "single_reply_call = \<lparr>WantsMore = False, Continues = False\<rparr>"

section \<open>Theorems\<close>

subsection \<open>The loops as list functions\<close>

lemma histories_loop_eq:
  "histories_loop lib newImage history histories =
     histories @ map (imageHistory lib newImage) history"
  by (induction history arbitrary: histories) simp_all

lemma results_loop_eq:
  "results_loop results imageResults = imageResults @ map ImageSearch_of results"
  by (induction results arbitrary: imageResults) simp_all

lemma successful_results_Cons:
  "successful_results (answer # answers) =
     (case answer of Inl err \<Rightarrow> [] | Inr results \<Rightarrow> map ImageSearch_of results)
       @ successful_results answers"
  by (simp add: successful_results_def)

lemma successful_results_Nil: "successful_results [] = []"
  by (simp add: successful_results_def)

lemma search_loop_many:
  "1 < length registries \<Longrightarrow>
   fst (search_loop rt registries name limit rest imageResults w) =
     Replied (ReplySearchImage (imageResults @ successful_results (query_each rt name limit rest w)))"
proof (induction rest arbitrary: imageResults w)
  case Nil
  then show ?case by (simp add: successful_results_Nil)
next
  case (Cons reg rest)
  obtain answer w' where q: "SearchRegistry rt reg name limit w = (answer, w')"
    by (cases "SearchRegistry rt reg name limit w")
  show ?case
  proof (cases answer)
    case (Inl err)
    with q Cons show ?thesis by (simp add: successful_results_Cons)
  next
    case (Inr results)
    with q Cons show ?thesis by (simp add: successful_results_Cons results_loop_eq)
  qed
qed


lemma lines_read_Nil: "lines_read [] = []"
  by (simp add: lines_read_def)

lemma build_succeeded_Cons:
  "build_succeeded (t # ticks) =
     (if final_tick t then rd_err t = Some EOF \<and> chan t = Some None else build_succeeded ticks)"
  by (simp add: build_succeeded_def)

lemma build_succeeded_Nil: "\<not> build_succeeded []"
  by (simp add: build_succeeded_def)

lemma poll_loop_done_iff:
  "(\<exists>log' frames. poll_loop call ticks log fs = Loop_done log' frames) \<longleftrightarrow> build_succeeded ticks"
proof (induction ticks arbitrary: log fs)
  case Nil
  show ?case by (simp add: build_succeeded_Nil)
next
  case (Cons t ticks)
  show ?case
    by (cases "rd_err t"; cases "chan t")
      (auto simp: build_succeeded_Cons final_tick_def Cons.IH split: option.splits)
qed








subsection \<open>The claims\<close>

text \<open>
  Claim C10.  ImageExists answers with the inverse of a truth value: 1 when the
  lookup fails with an error whose cause is \<open>ErrNoSuchImage\<close> (no local image
  matches the name), 0 when the image is found.  The error reply is sent for the
  other errors of the lookup and only for them, so a missing image never becomes
  an error reply.
\<close>

theorem ImageExists_reply_inverted:
  "(\<forall>err. NewFromLocal rt name = Inl err \<longrightarrow> Cause err = ErrNoSuchImage \<longrightarrow>
       ImageExists rt name = Replied (ReplyImageExists 1))
   \<and> (\<forall>newImage. NewFromLocal rt name = Inr newImage \<longrightarrow>
       ImageExists rt name = Replied (ReplyImageExists 0))
   \<and> (\<forall>err. NewFromLocal rt name = Inl err \<longrightarrow> Cause err \<noteq> ErrNoSuchImage \<longrightarrow>
       ImageExists rt name = Replied (ReplyErrorOccurred (Error err)))
   \<and> (\<forall>msg. ImageExists rt name = Replied (ReplyErrorOccurred msg) \<longrightarrow>
       (\<exists>err. NewFromLocal rt name = Inl err \<and> Cause err \<noteq> ErrNoSuchImage))"
  by (auto simp: ImageExists_def split: sum.splits if_splits)

theorem ImageExists_reply_inverted_witness:
  "ImageExists sample_runtime ''nothing'' = Replied (ReplyImageExists 1)
   \<and> ImageExists sample_runtime ''myapp:latest'' = Replied (ReplyImageExists 0)
   \<and> ImageExists sample_runtime ''broken'' = Replied (ReplyErrorOccurred ''storage corrupted'')"
  using ImageExists_reply_inverted [of sample_runtime "''nothing''"]
    ImageExists_reply_inverted [of sample_runtime "''myapp:latest''"]
    ImageExists_reply_inverted [of sample_runtime "''broken''"]
  by (simp add: sample_runtime_def)

text \<open>
  Claim C6, as amended.  For an image that exists and whose history can be read,
  HistoryImage replies with one entry for each element of the history, in the order
  the runtime returned them, and every entry, not only the last, carries the
  current names of the image as its tags.
\<close>

theorem HistoryImage_tags_on_every_entry:
  assumes "NewFromLocal rt name = Inr newImage" and "img_History newImage = Inr history"
  shows "\<exists>histories. HistoryImage lib rt name = Replied (ReplyHistoryImage histories)
           \<and> map ih_Id histories = map h_ID history
           \<and> map ih_CreatedBy histories = map h_CreatedBy history
           \<and> map ih_Size histories = map h_Size history
           \<and> map ih_Comment histories = map h_Comment history
           \<and> (\<forall>entry \<in> set histories. ih_Tags entry = Names newImage)"
  using assms by (simp add: HistoryImage_def histories_loop_eq imageHistory_def comp_def)

theorem HistoryImage_tags_on_every_entry_witness:
  "\<exists>histories.
      HistoryImage sample_lib sample_runtime ''myapp:latest'' = Replied (ReplyHistoryImage histories)
      \<and> map ih_Id histories = [''layer1'', ''layer2'']
      \<and> map ih_Tags histories = [[''myapp:latest''], [''myapp:latest'']]"
proof -
  have a: "NewFromLocal sample_runtime ''myapp:latest'' = Inr sample_image"
    by (simp add: sample_runtime_def)
  have b: "img_History sample_image = Inr sample_history"
    by (simp add: sample_image_def)
  from HistoryImage_tags_on_every_entry [OF a b, of sample_lib]
  obtain histories where h:
    "HistoryImage sample_lib sample_runtime ''myapp:latest'' = Replied (ReplyHistoryImage histories)"
    "map ih_Id histories = map h_ID sample_history"
    "\<forall>entry \<in> set histories. ih_Tags entry = Names sample_image"
    by blast
  from h(2) have "length histories = length sample_history"
    by (metis length_map)
  then have len: "length histories = 2"
    by (simp add: sample_history_def)
  from h(3) have "map ih_Tags histories = replicate (length histories) (Names sample_image)"
    by (simp add: map_replicate_const [symmetric] cong: map_cong)
  with len have "map ih_Tags histories = [[''myapp:latest''], [''myapp:latest'']]"
    by (simp add: sample_image_def numeral_2_eq_2)
  with h show ?thesis by (auto simp: sample_history_def)
qed

text \<open>
  The claim as first stated fails on an image of two layers: the entry of the
  first layer carries the tag too.
\<close>

theorem HistoryImage_only_last_tagged_counterexample:
  "HistoryImage sample_lib sample_runtime ''myapp:latest'' =
     Replied (ReplyHistoryImage
       [\<lparr>ih_Id = ''layer1'', ih_Created = ''t100'', ih_CreatedBy = ''FROM scratch'',
         ih_Tags = [''myapp:latest''], ih_Size = 5, ih_Comment = ''''\<rparr>,
        \<lparr>ih_Id = ''layer2'', ih_Created = ''later'', ih_CreatedBy = ''RUN make'',
         ih_Tags = [''myapp:latest''], ih_Size = 7, ih_Comment = ''''\<rparr>])"
  by (simp add: HistoryImage_def sample_runtime_def sample_image_def sample_history_def
      sample_lib_def imageHistory_def)

text \<open>
  Claim C4.  Over the configured registries, when there are two or more, every
  failing registry is skipped and the reply holds the results of the registries
  that answered, concatenated in the order of the registries; when there is
  exactly one and it fails, the reply is the fault carrying its error.
\<close>

theorem SearchImage_failures:
  assumes "GetRegistries rt = Inr registries"
  shows "(2 \<le> length registries \<longrightarrow>
            fst (SearchImage lib rt name limit w) =
              Replied (ReplySearchImage (successful_results (query_each rt name limit registries w))))
         \<and> (\<forall>reg err. registries = [reg] \<and> fst (SearchRegistry rt reg name limit w) = Inl err \<longrightarrow>
            fst (SearchImage lib rt name limit w) = Replied (ReplyErrorOccurred (Error err)))"
proof (intro conjI impI allI)
  assume "2 \<le> length registries"
  then have "1 < length registries" by simp
  from search_loop_many [OF this, of rt name limit registries "[]" w] assms
  show "fst (SearchImage lib rt name limit w) =
          Replied (ReplySearchImage (successful_results (query_each rt name limit registries w)))"
    by (simp add: SearchImage_def)
next
  fix reg err
  assume a: "registries = [reg] \<and> fst (SearchRegistry rt reg name limit w) = Inl err"
  then obtain w' where "SearchRegistry rt reg name limit w = (Inl err, w')"
    by (cases "SearchRegistry rt reg name limit w") simp
  with a assms show "fst (SearchImage lib rt name limit w) = Replied (ReplyErrorOccurred (Error err))"
    by (simp add: SearchImage_def)
qed

lemma sample_registries: "GetRegistries sample_runtime = Inr [''docker.io'', ''quay.io'']"
  by (simp add: sample_runtime_def)

lemma sample_query_each:
  "query_each sample_runtime ''alpine'' 25 [''docker.io'', ''quay.io''] [] =
     [Inr [\<lparr>sr_Name = ''docker.io/alpine'', sr_Description = '''', sr_StarCount = 3,
            sr_IsOfficial = True, sr_IsAutomated = False\<rparr>],
      Inl (Errorf ''unauthorized'')]"
  by (simp add: sample_runtime_def)

lemma single_registry:
  "GetRegistries (sample_runtime\<lparr>GetRegistries := Inr [''quay.io'']\<rparr>) = Inr [''quay.io'']"
  by simp

lemma single_registry_fails:
  "fst (SearchRegistry (sample_runtime\<lparr>GetRegistries := Inr [''quay.io'']\<rparr>) ''quay.io'' ''alpine'' 25 [])
     = Inl (Errorf ''unauthorized'')"
  by (simp add: sample_runtime_def)

theorem SearchImage_failures_witness:
  "fst (SearchImage sample_lib sample_runtime ''alpine'' 25 []) =
     Replied (ReplySearchImage
       [\<lparr>is_Description = '''', is_Is_official = True, is_Is_automated = False,
         is_Name = ''docker.io/alpine'', is_Star_count = 3\<rparr>])
   \<and> fst (SearchImage sample_lib (sample_runtime\<lparr>GetRegistries := Inr [''quay.io'']\<rparr>)
        ''alpine'' 25 []) = Replied (ReplyErrorOccurred ''unauthorized'')"
proof -
  from SearchImage_failures [OF sample_registries, of sample_lib "''alpine''" 25 "[]",
      unfolded sample_query_each]
  have one: "fst (SearchImage sample_lib sample_runtime ''alpine'' 25 []) =
     Replied (ReplySearchImage
       [\<lparr>is_Description = '''', is_Is_official = True, is_Is_automated = False,
         is_Name = ''docker.io/alpine'', is_Star_count = 3\<rparr>])"
    by (simp add: successful_results_def ImageSearch_of_def)
  from SearchImage_failures [OF single_registry, of sample_lib "''alpine''" 25 "[]"]
    single_registry_fails
  have two: "fst (SearchImage sample_lib (sample_runtime\<lparr>GetRegistries := Inr [''quay.io'']\<rparr>)
        ''alpine'' 25 []) = Replied (ReplyErrorOccurred ''unauthorized'')"
    by simp
  from one two show ?thesis by simp
qed

lemma PushImage_cases:
  assumes "NewFromLocal rt name = Inr newImage"
    and "registryCreds_of rt creds = Inr registryCreds"
    and "push_manifestType format = Some manifestType"
  shows "PushImage lib rt name tag tlsVerify signaturePolicy creds certDir compress format
           removeSignatures signBy =
     ([Push newImage (if tag \<noteq> '''' then tag else name) manifestType signaturePolicy compress
         \<lparr>RemoveSignatures = removeSignatures, SignBy = signBy\<rparr>
         \<lparr>DockerRegistryCreds = registryCreds, DockerCertPath = certDir,
          DockerInsecureSkipTLSVerify =
            (if \<not> tlsVerify then OptionalBoolTrue else OptionalBoolUndefined)\<rparr>],
      (case PushImageToHeuristicDestination rt newImage (if tag \<noteq> '''' then tag else name)
              manifestType signaturePolicy compress
              \<lparr>RemoveSignatures = removeSignatures, SignBy = signBy\<rparr>
              \<lparr>DockerRegistryCreds = registryCreds, DockerCertPath = certDir,
               DockerInsecureSkipTLSVerify =
                 (if \<not> tlsVerify then OptionalBoolTrue else OptionalBoolUndefined)\<rparr> of
         Some err \<Rightarrow> Replied (ReplyErrorOccurred (Error err))
       | None \<Rightarrow> Replied (ReplyPushImage (ID newImage))))"
proof -
  let ?dest = "if tag \<noteq> '''' then tag else name"
  let ?so = "\<lparr>RemoveSignatures = removeSignatures, SignBy = signBy\<rparr>"
  let ?opts = "\<lparr>DockerRegistryCreds = registryCreds, DockerCertPath = certDir,
               DockerInsecureSkipTLSVerify =
                 (if \<not> tlsVerify then OptionalBoolTrue else OptionalBoolUndefined)\<rparr>"
  from assms show ?thesis
    by (cases "PushImageToHeuristicDestination rt newImage ?dest manifestType signaturePolicy
                 compress ?so ?opts")
      (simp_all add: PushImage_def Let_def)
qed

lemma push_effects_cases:
  assumes "NewFromLocal rt name = Inr newImage"
  shows "fst (PushImage lib rt name tag tlsVerify signaturePolicy creds certDir compress format
                removeSignatures signBy) =
     (case registryCreds_of rt creds of
        Inl err \<Rightarrow> []
      | Inr registryCreds \<Rightarrow>
          (case push_manifestType format of
             None \<Rightarrow> []
           | Some manifestType \<Rightarrow>
               [Push newImage (if tag \<noteq> '''' then tag else name) manifestType signaturePolicy compress
                  \<lparr>RemoveSignatures = removeSignatures, SignBy = signBy\<rparr>
                  \<lparr>DockerRegistryCreds = registryCreds, DockerCertPath = certDir,
                   DockerInsecureSkipTLSVerify =
                     (if \<not> tlsVerify then OptionalBoolTrue else OptionalBoolUndefined)\<rparr>]))"
proof (cases "registryCreds_of rt creds")
  case (Inl err)
  with assms show ?thesis by (simp add: PushImage_def)
next
  case (Inr registryCreds)
  show ?thesis
  proof (cases "push_manifestType format")
    case None
    with Inr assms show ?thesis by (simp add: PushImage_def)
  next
    case (Some manifestType)
    with Inr show ?thesis by (simp add: PushImage_cases [OF assms Inr Some])
  qed
qed

text \<open>
  Claim C7.  When the image exists locally, the credentials parse and the format
  is a known one, PushImage calls the push of the runtime once, with the tag
  argument as destination when that is not empty and with the source name
  otherwise, and its reply is what that call gives: the ID of the image when the
  push succeeds, the fault of its error when it fails.  No other push is made.
\<close>

theorem PushImage_destination:
  assumes "NewFromLocal rt name = Inr newImage"
  shows
    "(\<forall>img dest mt pol c so opts.
        Push img dest mt pol c so opts \<in>
          set (fst (PushImage lib rt name tag tlsVerify signaturePolicy creds certDir compress format
                     removeSignatures signBy)) \<longrightarrow>
        img = newImage \<and> dest = (if tag \<noteq> '''' then tag else name))
     \<and> (\<forall>registryCreds manifestType.
        registryCreds_of rt creds = Inr registryCreds \<and> push_manifestType format = Some manifestType \<longrightarrow>
        PushImage lib rt name tag tlsVerify signaturePolicy creds certDir compress format
               removeSignatures signBy =
          ([Push newImage (if tag \<noteq> '''' then tag else name) manifestType signaturePolicy compress
              \<lparr>RemoveSignatures = removeSignatures, SignBy = signBy\<rparr>
              \<lparr>DockerRegistryCreds = registryCreds, DockerCertPath = certDir,
               DockerInsecureSkipTLSVerify =
                 (if \<not> tlsVerify then OptionalBoolTrue else OptionalBoolUndefined)\<rparr>],
           (case PushImageToHeuristicDestination rt newImage (if tag \<noteq> '''' then tag else name)
                   manifestType signaturePolicy compress
                   \<lparr>RemoveSignatures = removeSignatures, SignBy = signBy\<rparr>
                   \<lparr>DockerRegistryCreds = registryCreds, DockerCertPath = certDir,
                    DockerInsecureSkipTLSVerify =
                      (if \<not> tlsVerify then OptionalBoolTrue else OptionalBoolUndefined)\<rparr> of
              Some err \<Rightarrow> Replied (ReplyErrorOccurred (Error err))
            | None \<Rightarrow> Replied (ReplyPushImage (ID newImage)))))"
proof (rule conjI)
  show "\<forall>img dest mt pol c so opts.
        Push img dest mt pol c so opts \<in>
          set (fst (PushImage lib rt name tag tlsVerify signaturePolicy creds certDir compress format
                     removeSignatures signBy)) \<longrightarrow>
        img = newImage \<and> dest = (if tag \<noteq> [] then tag else name)"
    unfolding push_effects_cases [OF assms]
    by (cases "registryCreds_of rt creds"; cases "push_manifestType format") auto
next
  show "\<forall>registryCreds manifestType.
        registryCreds_of rt creds = Inr registryCreds \<and> push_manifestType format = Some manifestType \<longrightarrow>
        PushImage lib rt name tag tlsVerify signaturePolicy creds certDir compress format
               removeSignatures signBy =
          ([Push newImage (if tag \<noteq> [] then tag else name) manifestType signaturePolicy compress
              \<lparr>RemoveSignatures = removeSignatures, SignBy = signBy\<rparr>
              \<lparr>DockerRegistryCreds = registryCreds, DockerCertPath = certDir,
               DockerInsecureSkipTLSVerify =
                 (if \<not> tlsVerify then OptionalBoolTrue else OptionalBoolUndefined)\<rparr>],
           (case PushImageToHeuristicDestination rt newImage (if tag \<noteq> [] then tag else name)
                   manifestType signaturePolicy compress
                   \<lparr>RemoveSignatures = removeSignatures, SignBy = signBy\<rparr>
                   \<lparr>DockerRegistryCreds = registryCreds, DockerCertPath = certDir,
                    DockerInsecureSkipTLSVerify =
                      (if \<not> tlsVerify then OptionalBoolTrue else OptionalBoolUndefined)\<rparr> of
              Some err \<Rightarrow> Replied (ReplyErrorOccurred (Error err))
            | None \<Rightarrow> Replied (ReplyPushImage (ID newImage))))"
    by (intro allI impI, elim conjE, rule PushImage_cases [OF assms])
qed

lemma sample_lookup: "NewFromLocal sample_runtime ''myapp:latest'' = Inr sample_image"
  by (simp add: sample_runtime_def)

lemma sample_no_creds: "registryCreds_of sample_runtime '''' = Inr None"
  by (simp add: registryCreds_of_def)

lemma sample_oci: "push_manifestType ''oci'' = Some MediaTypeImageManifest"
  by (simp add: push_manifestType_def)

lemma sample_push:
  "PushImageToHeuristicDestination sample_runtime img dest mt pol c so opts =
     (if dest = ''quay.io/me/myapp:v1'' then None else Some (Errorf (''no push to '' @ dest)))"
  by (simp add: sample_runtime_def)

theorem PushImage_destination_witness:
  "PushImage sample_lib sample_runtime ''myapp:latest'' ''quay.io/me/myapp:v1'' True '''' ''''
          '''' False ''oci'' False '''' =
     ([Push sample_image ''quay.io/me/myapp:v1'' MediaTypeImageManifest '''' False
         \<lparr>RemoveSignatures = False, SignBy = ''''\<rparr>
         \<lparr>DockerRegistryCreds = None, DockerCertPath = '''',
          DockerInsecureSkipTLSVerify = OptionalBoolUndefined\<rparr>],
      Replied (ReplyPushImage ''abc123''))
   \<and> PushImage sample_lib sample_runtime ''myapp:latest'' '''' True '''' ''''
          '''' False ''oci'' False '''' =
     ([Push sample_image ''myapp:latest'' MediaTypeImageManifest '''' False
         \<lparr>RemoveSignatures = False, SignBy = ''''\<rparr>
         \<lparr>DockerRegistryCreds = None, DockerCertPath = '''',
          DockerInsecureSkipTLSVerify = OptionalBoolUndefined\<rparr>],
      Replied (ReplyErrorOccurred ''no push to myapp:latest''))"
proof -
  note p1 = PushImage_destination [OF sample_lookup, of sample_lib "''quay.io/me/myapp:v1''" True "[]"
      "[]" "[]" False "''oci''" False "[]", THEN conjunct2, rule_format,
      OF conjI [OF sample_no_creds sample_oci]]
  have a:
    "PushImage sample_lib sample_runtime ''myapp:latest'' ''quay.io/me/myapp:v1'' True [] []
          [] False ''oci'' False [] =
     ([Push sample_image ''quay.io/me/myapp:v1'' MediaTypeImageManifest [] False
         \<lparr>RemoveSignatures = False, SignBy = []\<rparr>
         \<lparr>DockerRegistryCreds = None, DockerCertPath = [],
          DockerInsecureSkipTLSVerify = OptionalBoolUndefined\<rparr>],
      Replied (ReplyPushImage ''abc123''))"
    unfolding p1 by (simp add: sample_push sample_image_def)
  note p2 = PushImage_destination [OF sample_lookup, of sample_lib "[]" True "[]"
      "[]" "[]" False "''oci''" False "[]", THEN conjunct2, rule_format,
      OF conjI [OF sample_no_creds sample_oci]]
  have b:
    "PushImage sample_lib sample_runtime ''myapp:latest'' [] True [] []
          [] False ''oci'' False [] =
     ([Push sample_image ''myapp:latest'' MediaTypeImageManifest [] False
         \<lparr>RemoveSignatures = False, SignBy = []\<rparr>
         \<lparr>DockerRegistryCreds = None, DockerCertPath = [],
          DockerInsecureSkipTLSVerify = OptionalBoolUndefined\<rparr>],
      Replied (ReplyErrorOccurred ''no push to myapp:latest''))"
    unfolding p2 by (simp add: sample_push)
  from a b show ?thesis by (rule conjI)
qed













lemma prune_loop_effects:
  "fst (fst (prune_loop rt imgs pruned w)) =
     map (\<lambda>i. Removal i True)
       (take (Suc (length (takeWhile (\<lambda>r. r = None) (remove_each rt imgs w)))) imgs)"
proof (induction imgs arbitrary: pruned w)
  case Nil
  show ?case by simp
next
  case (Cons i rest)
  obtain r w' where rm: "Remove rt i True w = (r, w')" by (cases "Remove rt i True w")
  show ?case
  proof (cases r)
    case None
    obtain effects out w'' where pl: "prune_loop rt rest (pruned @ [ID i]) w' = ((effects, out), w'')"
      by (cases "prune_loop rt rest (pruned @ [ID i]) w'") auto
    from Cons.IH [of "pruned @ [ID i]" w'] pl rm None show ?thesis by simp
  next
    case (Some err)
    with rm show ?thesis by simp
  qed
qed

lemma prune_loop_outcome:
  "snd (fst (prune_loop rt imgs pruned w)) =
     (let results = remove_each rt imgs w; k = length (takeWhile (\<lambda>r. r = None) results) in
      if k = length imgs then Replied (ReplyImagesPrune (pruned @ map ID imgs))
      else Replied (ReplyErrorOccurred (Error (the (results ! k)))))"
proof (induction imgs arbitrary: pruned w)
  case Nil
  show ?case by simp
next
  case (Cons i rest)
  obtain r w' where rm: "Remove rt i True w = (r, w')" by (cases "Remove rt i True w")
  show ?case
  proof (cases r)
    case None
    obtain effects out w'' where pl: "prune_loop rt rest (pruned @ [ID i]) w' = ((effects, out), w'')"
      by (cases "prune_loop rt rest (pruned @ [ID i]) w'") auto
    from Cons.IH [of "pruned @ [ID i]" w'] pl rm None show ?thesis by (simp add: Let_def)
  next
    case (Some err)
    with rm show ?thesis by (simp add: Let_def)
  qed
qed

lemma length_remove_each: "length (remove_each rt imgs w) = length imgs"
  by (induction imgs arbitrary: w) (simp_all split: prod.splits)

lemma first_failure:
  assumes "length (takeWhile (\<lambda>r. r = None) results) < length results"
  shows "\<exists>err. results ! length (takeWhile (\<lambda>r. r = None) results) = Some err"
proof -
  from assms have "\<not> (\<lambda>r. r = None) (results ! length (takeWhile (\<lambda>r. r = None) results))"
    by (rule nth_length_takeWhile)
  then show ?thesis by auto
qed

text \<open>
  Claim C3, as amended.  With \<open>k\<close> the number of members of the prune set removed
  before the first failure, ImagesPrune calls \<open>Remove\<close> with \<open>force = true\<close> on the
  first \<open>k + 1\<close> members in their order and on no other (on all of them when none
  fails).  When none fails the reply lists the IDs of all members; when the member
  at \<open>k\<close> fails the reply is the fault carrying the text of its error and nothing
  else: the IDs removed before it are not in the reply.
\<close>

theorem ImagesPrune_fail_fast:
  assumes "GetPruneImages rt w = Inr pruneImages"
  shows
    "fst (fst (ImagesPrune rt w)) =
       map (\<lambda>i. Removal i True)
         (take (Suc (length (takeWhile (\<lambda>r. r = None) (remove_each rt pruneImages w)))) pruneImages)
     \<and> (length (takeWhile (\<lambda>r. r = None) (remove_each rt pruneImages w)) = length pruneImages \<longrightarrow>
          snd (fst (ImagesPrune rt w)) = Replied (ReplyImagesPrune (map ID pruneImages)))
     \<and> (length (takeWhile (\<lambda>r. r = None) (remove_each rt pruneImages w)) < length pruneImages \<longrightarrow>
          (\<exists>err. remove_each rt pruneImages w
                   ! length (takeWhile (\<lambda>r. r = None) (remove_each rt pruneImages w)) = Some err
                 \<and> snd (fst (ImagesPrune rt w)) = Replied (ReplyErrorOccurred (Error err))))"
proof (intro conjI impI)
  show "fst (fst (ImagesPrune rt w)) =
       map (\<lambda>i. Removal i True)
         (take (Suc (length (takeWhile (\<lambda>r. r = None) (remove_each rt pruneImages w)))) pruneImages)"
    using assms by (simp add: ImagesPrune_def prune_loop_effects)
next
  assume "length (takeWhile (\<lambda>r. r = None) (remove_each rt pruneImages w)) = length pruneImages"
  with assms show "snd (fst (ImagesPrune rt w)) = Replied (ReplyImagesPrune (map ID pruneImages))"
    by (simp add: ImagesPrune_def prune_loop_outcome Let_def)
next
  assume less: "length (takeWhile (\<lambda>r. r = None) (remove_each rt pruneImages w)) < length pruneImages"
  then obtain err where e:
    "remove_each rt pruneImages w
       ! length (takeWhile (\<lambda>r. r = None) (remove_each rt pruneImages w)) = Some err"
    using first_failure [of "remove_each rt pruneImages w"] by (auto simp: length_remove_each)
  with assms less
  have "snd (fst (ImagesPrune rt w)) = Replied (ReplyErrorOccurred (Error err))"
    by (simp add: ImagesPrune_def prune_loop_outcome Let_def)
  with e show "\<exists>err. remove_each rt pruneImages w
                   ! length (takeWhile (\<lambda>r. r = None) (remove_each rt pruneImages w)) = Some err
                 \<and> snd (fst (ImagesPrune rt w)) = Replied (ReplyErrorOccurred (Error err))"
    by blast
qed

lemma sample_prune_set:
  "GetPruneImages sample_runtime [''old1'', ''busy'', ''old2''] =
     Inr [unused_image ''old1'', unused_image ''busy'', unused_image ''old2'']"
  by (simp add: sample_runtime_def)

lemma sample_remove_each:
  "remove_each sample_runtime [unused_image ''old1'', unused_image ''busy'', unused_image ''old2'']
     [''old1'', ''busy'', ''old2''] = [None, Some (Errorf ''image is in use''), None]"
  by (simp add: sample_runtime_def unused_image_def)

theorem ImagesPrune_fail_fast_witness:
  "fst (fst (ImagesPrune sample_runtime [''old1'', ''busy'', ''old2''])) =
     [Removal (unused_image ''old1'') True, Removal (unused_image ''busy'') True]
   \<and> snd (fst (ImagesPrune sample_runtime [''old1'', ''busy'', ''old2''])) =
     Replied (ReplyErrorOccurred ''image is in use'')"
  using ImagesPrune_fail_fast [OF sample_prune_set, unfolded sample_remove_each]
  by simp

text \<open>
  The claim as first stated fails where the second of three unused images cannot
  be removed: the first is removed and gone from the store, and the reply is the
  fault alone.
\<close>

theorem ImagesPrune_reply_drops_removed_counterexample:
  "ImagesPrune sample_runtime [''old1'', ''busy'', ''old2''] =
     (([Removal (unused_image ''old1'') True, Removal (unused_image ''busy'') True],
       Replied (ReplyErrorOccurred ''image is in use'')),
      [''busy'', ''old2''])"
  by (simp add: ImagesPrune_def sample_runtime_def unused_image_def)

subsection \<open>BuildImage\<close>

lemma BuildImage_early_return:
  "build_options lib config = Inl (Early_return err) \<Longrightarrow>
   BuildImage lib rt call config ticks = \<lparr>launched = [], sent = [], ending = Return_err err\<rparr>"
  by (simp add: BuildImage_def)

lemma BuildImage_early_reply:
  "build_options lib config = Inl (Early_reply reason) \<Longrightarrow>
   BuildImage lib rt call config ticks =
     \<lparr>launched = [], sent = [(Continues call, ReplyErrorOccurred reason)], ending = Return_nil\<rparr>"
  by (simp add: BuildImage_def)

lemma BuildImage_launched:
  "launched (BuildImage lib rt call config ticks) =
     (case build_options lib config of Inl e \<Rightarrow> [] | Inr c \<Rightarrow> [c])"
  by (simp add: BuildImage_def Let_def split: sum.splits early.splits loop_exit.splits list.splits)



lemma build_manifestType_unrecognized:
  assumes "Image_format config \<noteq> ''''" and "\<not> prefix ''oci'' (Image_format config)"
    and "\<not> prefix ''docker'' (Image_format config)"
  shows "build_manifestType config = Inl (Image_format config)"
  using assms by (simp add: build_manifestType_def)

lemma build_options_namespace:
  "build_options lib config = Inr (options, dockerfiles) \<Longrightarrow>
   NamespaceOptions options = [\<lparr>ns_Name = NetworkNamespace, ns_Host = True\<rparr>]"
  by (auto simp: build_options_def Let_def split: sum.splits prod.splits)

lemma sample_options:
  "build_options sample_lib sample_config =
     Inr (\<lparr>ContextDirectory = ''/work'', bo_PullPolicy = PullIfMissing, bo_Compression = Gzip,
           Quiet = False, Args = [], AdditionalTags = [''myapp:latest''],
           OutputFormat = MediaTypeImageManifest,
           CommonBuildOpts =
             \<lparr>AddHost = [], CgroupParent = '''', CPUPeriod = 0, CPUQuota = 0, CPUSetCPUs = '''',
              CPUSetMems = '''', cbo_Memory = 1024, MemorySwap = 0, ShmSize = '''',
              cbo_Ulimit = [], Volumes = []\<rparr>,
           bo_Squash = False, Labels = [], bo_Annotations = [],
           NamespaceOptions = [\<lparr>ns_Name = NetworkNamespace, ns_Host = True\<rparr>]\<rparr>,
          [''Dockerfile''])"
  by (simp add: build_options_def sample_lib_def sample_config_def remote_file_def
      build_manifestType_def parse_limit_def)

lemma sample_options_no_tags:
  "\<exists>c. build_options sample_lib (sample_config\<lparr>Tags := []\<rparr>) = Inr c"
  by (simp add: build_options_def sample_lib_def sample_config_def remote_file_def
      build_manifestType_def parse_limit_def)

lemma sample_ticks_succeed: "build_succeeded sample_ticks"
  by (simp add: build_succeeded_def sample_ticks_def final_tick_def)








lemma lost_options_tar:
  "build_options lost_lib (sample_config\<lparr>Image_format := ''tar''\<rparr>) =
     Inl (Early_return (Wrapf (Errorf ''getwd: no such file or directory'')
            (''error determining path to file '' @ [CHR 0x22] @ ''Dockerfile'' @ [CHR 0x22])))"
  by (simp add: build_options_def lost_lib_def sample_lib_def sample_config_def remote_file_def)


text \<open>
  Claim C1, as amended.  A request whose \<open>Image_format\<close> is not empty and begins
  with neither \<open>oci\<close> nor \<open>docker\<close> never gets to \<open>build\<close>: no build is launched
  (so no log line is written and no image created), no reply carries a log, and the
  run is the same whatever the observations, since the handler leaves before its
  loop.  It leaves with the fault \<open>unrecognized image type\<close> when the path of the
  first local Dockerfile resolves; that check comes first, and when the library
  cannot resolve the path its error is returned instead, with no reply.
\<close>

theorem BuildImage_unrecognized_format:
  assumes "Image_format config \<noteq> ''''" and "\<not> prefix ''oci'' (Image_format config)"
    and "\<not> prefix ''docker'' (Image_format config)"
  shows
    "launched (BuildImage lib rt call config ticks) = []
     \<and> (\<forall>k br. (k, ReplyBuildImage br) \<notin> set (sent (BuildImage lib rt call config ticks)))
     \<and> (\<forall>ticks'. BuildImage lib rt call config ticks' = BuildImage lib rt call config ticks)
     \<and> (case dockerfiles_loop lib (Dockerfile config) of
           Inl err \<Rightarrow>
             sent (BuildImage lib rt call config ticks) = [] \<and>
             ending (BuildImage lib rt call config ticks) = Return_err err
         | Inr resolved \<Rightarrow>
             sent (BuildImage lib rt call config ticks) =
               [(Continues call,
                 ReplyErrorOccurred (''unrecognized image type '' @ Quote lib (Image_format config)))] \<and>
             ending (BuildImage lib rt call config ticks) = Return_nil)"
proof (cases "dockerfiles_loop lib (Dockerfile config)")
  case (Inl err)
  then have "build_options lib config = Inl (Early_return err)"
    by (simp add: build_options_def)
  with Inl show ?thesis by (simp add: BuildImage_early_return)
next
  case (Inr resolved)
  with build_manifestType_unrecognized [OF assms]
  have "build_options lib config =
          Inl (Early_reply (''unrecognized image type '' @ Quote lib (Image_format config)))"
    by (cases resolved) (simp add: build_options_def)
  with Inr show ?thesis by (simp add: BuildImage_early_reply)
qed

theorem BuildImage_unrecognized_format_witness:
  "launched (BuildImage sample_lib sample_runtime single_reply_call
       (sample_config\<lparr>Image_format := ''tar''\<rparr>) sample_ticks) = []
   \<and> sent (BuildImage sample_lib sample_runtime single_reply_call
       (sample_config\<lparr>Image_format := ''tar''\<rparr>) sample_ticks) =
       [(False, ReplyErrorOccurred (''unrecognized image type '' @ [CHR 0x22] @ ''tar'' @ [CHR 0x22]))]
   \<and> ending (BuildImage sample_lib sample_runtime single_reply_call
       (sample_config\<lparr>Image_format := ''tar''\<rparr>) sample_ticks) = Return_nil"
proof -
  have a: "Image_format (sample_config\<lparr>Image_format := ''tar''\<rparr>) \<noteq> ''''" by simp
  have b: "\<not> prefix ''oci'' (Image_format (sample_config\<lparr>Image_format := ''tar''\<rparr>))" by simp
  have c: "\<not> prefix ''docker'' (Image_format (sample_config\<lparr>Image_format := ''tar''\<rparr>))" by simp
  have d: "dockerfiles_loop sample_lib (Dockerfile (sample_config\<lparr>Image_format := ''tar''\<rparr>)) =
             Inr (''/work'', [''Dockerfile''])"
    by (simp add: sample_config_def sample_lib_def remote_file_def)
  from BuildImage_unrecognized_format [OF a b c, of sample_lib sample_runtime single_reply_call
      sample_ticks] d
  show ?thesis by (simp add: single_reply_call_def sample_lib_def)
qed

text \<open>
  The claim as first stated fails in a process whose working directory is lost:
  the request with the format \<open>tar\<close> ends with the error of the path and no fault
  reply.
\<close>

theorem BuildImage_unrecognized_path_error_counterexample:
  "BuildImage lost_lib sample_runtime single_reply_call (sample_config\<lparr>Image_format := ''tar''\<rparr>)
     sample_ticks =
     \<lparr>launched = [], sent = [],
      ending = Return_err (Wrapf (Errorf ''getwd: no such file or directory'')
            (''error determining path to file '' @ [CHR 0x22] @ ''Dockerfile'' @ [CHR 0x22]))\<rparr>"
  by (rule BuildImage_early_return [OF lost_options_tar])




text \<open>
  Claim C8.  Every build BuildImage launches has the host network namespace as
  its one namespace option.  No field of the request is read for it, so no request
  changes it.
\<close>

theorem BuildImage_host_network:
  "\<forall>(options, dockerfiles) \<in> set (launched (BuildImage lib rt call config ticks)).
     NamespaceOptions options = [\<lparr>ns_Name = NetworkNamespace, ns_Host = True\<rparr>]"
proof (cases "build_options lib config")
  case (Inl e)
  then show ?thesis by (simp add: BuildImage_launched)
next
  case (Inr c)
  then show ?thesis
    by (cases c) (simp add: BuildImage_launched build_options_namespace)
qed

theorem BuildImage_host_network_witness:
  "launched (BuildImage sample_lib sample_runtime single_reply_call sample_config sample_ticks) \<noteq> []
   \<and> map (NamespaceOptions \<circ> fst)
       (launched (BuildImage sample_lib sample_runtime single_reply_call sample_config sample_ticks)) =
       [[\<lparr>ns_Name = ''network'', ns_Host = True\<rparr>]]"
proof -
  have l: "launched (BuildImage sample_lib sample_runtime single_reply_call sample_config sample_ticks) =
       [projr (build_options sample_lib sample_config)]"
    by (simp add: BuildImage_launched sample_options)
  with BuildImage_host_network [of sample_lib sample_runtime single_reply_call sample_config sample_ticks]
  show ?thesis by (simp add: NetworkNamespace_def split: prod.splits)
qed

lemma BuildImage_first_tag:
  assumes "build_options lib config = Inr c" and "build_succeeded ticks"
    and "Tags config = tag # others"
  shows "ending (BuildImage lib rt call config ticks) = Return_nil
     \<and> (\<exists>frames log.
          sent (BuildImage lib rt call config ticks) =
            frames @
            [(False,
              case NewFromLocal rt tag of
                Inl err \<Rightarrow> ReplyErrorOccurred (Error err)
              | Inr newImage \<Rightarrow> ReplyBuildImage \<lparr>br_Logs = log, br_Id = ID newImage\<rparr>)])"
proof -
  let ?call1 = "if WantsMore call then call\<lparr>Continues := True\<rparr> else call"
  from assms(2)
    poll_loop_done_iff [where call = ?call1 and ticks = ticks and log = "[]" and fs = "[]"]
  obtain log frames where l: "poll_loop ?call1 ticks [] [] = Loop_done log frames"
    by blast
  show ?thesis
  proof (cases "NewFromLocal rt tag")
    case (Inl err)
    with assms(1,3) l
    have "BuildImage lib rt call config ticks =
        \<lparr>launched = [c], sent = frames @ [(False, ReplyErrorOccurred (Error err))],
         ending = Return_nil\<rparr>"
      by (simp add: BuildImage_def Let_def)
    with Inl show ?thesis by simp
  next
    case (Inr newImage)
    with assms(1,3) l
    have "BuildImage lib rt call config ticks =
        \<lparr>launched = [c],
         sent = frames @ [(False, ReplyBuildImage \<lparr>br_Logs = log, br_Id = ID newImage\<rparr>)],
         ending = Return_nil\<rparr>"
      by (simp add: BuildImage_def Let_def)
    with Inr show ?thesis by auto
  qed
qed

lemma BuildImage_panic_iff:
  "ending (BuildImage lib rt call config ticks) = Panic \<longleftrightarrow>
     (\<exists>c. build_options lib config = Inr c) \<and> build_succeeded ticks \<and> Tags config = []"
proof (cases "build_options lib config")
  case (Inl e)
  then show ?thesis by (cases e) (simp_all add: BuildImage_def)
next
  case (Inr c)
  let ?call1 = "if WantsMore call then call\<lparr>Continues := True\<rparr> else call"
  note d = poll_loop_done_iff [where call = ?call1 and ticks = ticks and log = "[]" and fs = "[]"]
  show ?thesis
  proof (cases "poll_loop ?call1 ticks [] []")
    case (Loop_done log frames)
    with d have "build_succeeded ticks" by blast
    with Inr Loop_done show ?thesis
      by (simp add: BuildImage_def Let_def split: list.splits sum.splits)
  next
    case (Loop_return frames)
    with d have "\<not> build_succeeded ticks" by auto
    with Inr Loop_return show ?thesis by (simp add: BuildImage_def Let_def)
  next
    case (Loop_polling log frames)
    with d have "\<not> build_succeeded ticks" by auto
    with Inr Loop_polling show ?thesis by (simp add: BuildImage_def Let_def)
  qed
qed

text \<open>
  Claim C9.  After its loop BuildImage reads \<open>config.Tags[0]\<close> with no check of the
  length.  The run ends in the panic of an index out of range exactly when the
  build was launched and succeeded and the request has no tag: every request
  without tags panics after a successful build, and no request with a tag does.
  With a first tag the handler returns through a last reply made from looking that
  tag up: the fault of the lookup, or the log and the ID of the image found.
\<close>

theorem BuildImage_first_tag_unguarded:
  "(ending (BuildImage lib rt call config ticks) = Panic \<longleftrightarrow>
      (\<exists>c. build_options lib config = Inr c) \<and> build_succeeded ticks \<and> Tags config = [])
   \<and> (\<forall>c tag others.
        build_options lib config = Inr c \<and> build_succeeded ticks \<and> Tags config = tag # others \<longrightarrow>
        ending (BuildImage lib rt call config ticks) = Return_nil
        \<and> (\<exists>frames log.
             sent (BuildImage lib rt call config ticks) =
               frames @
               [(False,
                 case NewFromLocal rt tag of
                   Inl err \<Rightarrow> ReplyErrorOccurred (Error err)
                 | Inr newImage \<Rightarrow> ReplyBuildImage \<lparr>br_Logs = log, br_Id = ID newImage\<rparr>)]))"
  using BuildImage_panic_iff [of lib rt call config ticks] BuildImage_first_tag [of lib config _ ticks]
  by blast

theorem BuildImage_first_tag_unguarded_witness:
  "ending (BuildImage sample_lib sample_runtime single_reply_call (sample_config\<lparr>Tags := []\<rparr>)
      sample_ticks) = Panic
   \<and> ending (BuildImage sample_lib sample_runtime single_reply_call sample_config sample_ticks) =
      Return_nil"
proof -
  from BuildImage_first_tag_unguarded [of sample_lib sample_runtime single_reply_call
      "sample_config\<lparr>Tags := []\<rparr>" sample_ticks]
    sample_options_no_tags sample_ticks_succeed
  have a: "ending (BuildImage sample_lib sample_runtime single_reply_call
      (sample_config\<lparr>Tags := []\<rparr>) sample_ticks) = Panic"
    by simp
  have t: "Tags sample_config = ''myapp:latest'' # []"
    by (simp add: sample_config_def)
  from BuildImage_first_tag_unguarded [of sample_lib sample_runtime single_reply_call
      sample_config sample_ticks]
    sample_options sample_ticks_succeed t
  have b: "ending (BuildImage sample_lib sample_runtime single_reply_call sample_config sample_ticks) =
      Return_nil"
    by blast
  from a b show ?thesis by simp
qed

end
